theory Spec2Isabelle
  imports Main
begin

section \<open>Values of the request and of the table\<close>

text \<open>
  The handlers of \<^verbatim>\<open>server.js\<close> read three fields of the JSON body (\<^verbatim>\<open>key\<close>,
  \<^verbatim>\<open>hwid\<close>, \<^verbatim>\<open>serverAuthKey\<close>), one header and one environment variable. Each of them is
  a string, JSON \<^verbatim>\<open>null\<close>, or absent (\<^verbatim>\<open>undefined\<close>); the interface of the service takes
  strings, so other JSON types are left out. On these values \<^verbatim>\<open>===\<close> is equality.
\<close>

datatype jsval = Undefined | Null | Str string

text \<open>JavaScript truthiness, as \<^verbatim>\<open>!key\<close> and \<^verbatim>\<open>a || b\<close> use it.\<close>

fun truthy :: "jsval \<Rightarrow> bool" where
  "truthy (Str s) = (s \<noteq> [])"
| "truthy Undefined = False"
| "truthy Null = False"

definition js_or :: "jsval \<Rightarrow> jsval \<Rightarrow> jsval" where
  "js_or a b = (if truthy a then a else b)"

text \<open>
  The route that express dispatches a request to: \<^verbatim>\<open>app.post('/verify_key', ...)\<close>,
  \<^verbatim>\<open>app.get('/health', ...)\<close>, or none of the two.
\<close>

datatype route = VerifyKey | HealthCheck | NoRoute

record request =
  route :: route
  header_x_server_auth :: jsval
  body_serverAuthKey :: jsval
  body_key :: jsval
  body_hwid :: jsval

datatype json = Result bool string | Health string string | NoBody

record response =
  code :: nat
  body :: json

text \<open>
  The responses the source sends, under the names the specification gives to the outcomes.
\<close>

definition Unauthorized :: response where
  "Unauthorized = \<lparr>code = 401, body = Result False ''Unauthorized: Invalid server key.''\<rparr>"

definition MissingInput :: response where
  "MissingInput = \<lparr>code = 400, body = Result False ''Missing key or HWID.''\<rparr>"

definition InvalidKey :: response where
  "InvalidKey = \<lparr>code = 200, body = Result False ''Invalid key.''\<rparr>"

definition AlreadyRedeemedByOther :: response where
  "AlreadyRedeemedByOther =
     \<lparr>code = 200, body = Result False ''This key has already been redeemed by another user.''\<rparr>"

definition RedeemedNow :: response where
  "RedeemedNow = \<lparr>code = 200, body = Result True ''Key redeemed successfully! Welcome.''\<rparr>"

definition AuthorizedMatch :: response where
  "AuthorizedMatch = \<lparr>code = 200, body = Result True ''Authentication successful! Welcome.''\<rparr>"

definition HwidMismatch :: response where
  "HwidMismatch =
     \<lparr>code = 200, body = Result False ''HWID mismatch. This key is linked to a different device.''\<rparr>"

definition StoreError :: response where
  "StoreError = \<lparr>code = 500, body = Result False ''Internal server error.''\<rparr>"

definition HealthOk :: response where
  "HealthOk = \<lparr>code = 200, body = Health ''ok'' ''Auth server is running.''\<rparr>"

text \<open>What express answers when no route matches (its default handler).\<close>

definition NotRouted :: response where
  "NotRouted = \<lparr>code = 404, body = NoBody\<rparr>"

section \<open>The table \<^verbatim>\<open>whitelist\<close>\<close>

text \<open>
  A row of the table: the column \<^verbatim>\<open>Key\<close> and the two nullable columns \<^verbatim>\<open>HWID\<close> and
  \<^verbatim>\<open>redeemedBy\<close> (\<open>None\<close> is SQL NULL, which the driver hands over as \<^verbatim>\<open>null\<close>). The
  table is a list of rows: the source declares no uniqueness of \<^verbatim>\<open>Key\<close>, reads
  \<^verbatim>\<open>rows[0]\<close> and updates every row of the key.
\<close>

record entry =
  Key :: string
  HWID :: "string option"
  redeemedBy :: "string option"

type_synonym whitelist = "entry list"

text \<open>
  Modelled from the spec: the schema of the table (the collation of the column
  \<^verbatim>\<open>Key\<close>, which decides what \<^verbatim>\<open>WHERE `Key` = ?\<close> matches) is not in the repository.
  The specification says that keys are case-sensitive and compared by exact match.
\<close>

definition key_matches :: "string \<Rightarrow> entry \<Rightarrow> bool" where
  "key_matches k r = (Key r = k)"

text \<open>\<^verbatim>\<open>SELECT HWID, redeemedBy FROM whitelist WHERE `Key` = ?\<close>\<close>

definition select_whitelist :: "string \<Rightarrow> whitelist \<Rightarrow> entry list" where
  "select_whitelist k t = filter (key_matches k) t"

text \<open>\<^verbatim>\<open>UPDATE whitelist SET HWID = ?, redeemedBy = ? WHERE `Key` = ?\<close>\<close>

definition update_whitelist :: "string \<Rightarrow> string \<Rightarrow> string \<Rightarrow> whitelist \<Rightarrow> whitelist" where
  "update_whitelist h rb k t =
     map (\<lambda>r. if key_matches k r then r\<lparr>HWID := Some h, redeemedBy := Some rb\<rparr> else r) t"

text \<open>
  Each of the three awaited store operations may reject: \<^verbatim>\<open>pool.getConnection()\<close>,
  the SELECT and the UPDATE. A rejected SELECT has read nothing. The UPDATE runs on a
  connection of the pool with no transaction around it, so the statement is committed
  when the server has executed it, and the handler has no rollback: the promise of
  \<^verbatim>\<open>connection.execute\<close> either resolves (the statement took effect), or rejects
  with the statement not executed, or rejects although the statement took effect (the
  connection is lost before the reply arrives). The store operations a handler attempts
  are recorded in order.
\<close>

datatype execute_result = Resolves | RejectsBefore | RejectsAfter

record faults =
  getConnection_fails :: bool
  select_fails :: bool
  update_result :: execute_result

definition no_faults :: faults where
  "no_faults =
     \<lparr>getConnection_fails = False, select_fails = False, update_result = Resolves\<rparr>"

datatype store_op = GetConnection | Select string | Update string string | Release

record outcome =
  reply :: response
  store :: whitelist
  trace :: "store_op list"

section \<open>The handler of \<^verbatim>\<open>/verify_key\<close>\<close>

text \<open>
  The handler awaits the SELECT and, in the first-use branch, the UPDATE: between the
  two, other handlers run. It is therefore modelled in two parts. \<open>verify_read\<close> is
  the handler up to the point where it either responds or is about to issue the UPDATE;
  \<open>verify_write\<close> is the UPDATE and the response after it.
\<close>

datatype pending = Respond response | Bind string string

text \<open>The branches on \<^verbatim>\<open>rows\<close> and \<^verbatim>\<open>entry\<close> (\<^verbatim>\<open>rows[0]\<close>).\<close>

definition decide :: "entry list \<Rightarrow> string \<Rightarrow> string \<Rightarrow> pending" where
  "decide rows k h =
     (case rows of
        [] \<Rightarrow> Respond InvalidKey
      | entry # _ \<Rightarrow>
          if HWID entry = None \<or> HWID entry = Some ''null'' \<or> HWID entry = Some ''''
          then
            if redeemedBy entry \<noteq> None \<and> redeemedBy entry \<noteq> Some ''null''
               \<and> redeemedBy entry \<noteq> Some ''''
            then Respond AlreadyRedeemedByOther
            else Bind h k
          else if HWID entry = Some h then Respond AuthorizedMatch
          else Respond HwidMismatch)"

definition verify_read :: "faults \<Rightarrow> string \<Rightarrow> string \<Rightarrow> whitelist \<Rightarrow> pending \<times> store_op list" where
  "verify_read f k h t =
     (if getConnection_fails f then (Respond StoreError, [GetConnection])
      else if select_fails f then (Respond StoreError, [GetConnection, Select k])
      else (decide (select_whitelist k t) k h, [GetConnection, Select k]))"

definition verify_write :: "faults \<Rightarrow> string \<Rightarrow> string \<Rightarrow> whitelist \<Rightarrow> outcome" where
  "verify_write f h k t =
     (case update_result f of
        Resolves \<Rightarrow>
          \<lparr>reply = RedeemedNow, store = update_whitelist h ''true'' k t,
           trace = [Update h k]\<rparr>
      | RejectsBefore \<Rightarrow> \<lparr>reply = StoreError, store = t, trace = [Update h k]\<rparr>
      | RejectsAfter \<Rightarrow>
          \<lparr>reply = StoreError, store = update_whitelist h ''true'' k t,
           trace = [Update h k]\<rparr>)"

text \<open>\<^verbatim>\<open>finally { if (connection) connection.release(); }\<close>\<close>

definition release :: "faults \<Rightarrow> store_op list" where
  "release f = (if getConnection_fails f then [] else [Release])"

text \<open>The \<^verbatim>\<open>try\<close> block of the handler, run without interruption.\<close>

definition verify_store :: "faults \<Rightarrow> string \<Rightarrow> string \<Rightarrow> whitelist \<Rightarrow> outcome" where
  "verify_store f k h t =
     (case verify_read f k h t of
        (Respond r, ops) \<Rightarrow> \<lparr>reply = r, store = t, trace = ops @ release f\<rparr>
      | (Bind h' k', ops) \<Rightarrow>
          (let w = verify_write f h' k' t
           in \<lparr>reply = reply w, store = store w, trace = ops @ trace w @ release f\<rparr>))"

text \<open>
  The handler: the guard \<^verbatim>\<open>if (!key || !hwid)\<close>, then the \<^verbatim>\<open>try\<close> block. A value that
  passes the guard is a non-empty string.
\<close>

definition verify_key :: "faults \<Rightarrow> request \<Rightarrow> whitelist \<Rightarrow> outcome" where
  "verify_key f req t =
     (if \<not> truthy (body_key req) \<or> \<not> truthy (body_hwid req)
      then \<lparr>reply = MissingInput, store = t, trace = []\<rparr>
      else (case (body_key req, body_hwid req) of
              (Str k, Str h) \<Rightarrow> verify_store f k h t
            | _ \<Rightarrow> \<lparr>reply = MissingInput, store = t, trace = []\<rparr>))"

section \<open>The middleware and the routes\<close>

text \<open>
  \<^verbatim>\<open>serverAuthKey = req.headers['x-server-auth'] || req.body.serverAuthKey\<close>, compared
  with \<^verbatim>\<open>process.env.SERVER_API_KEY\<close> (\<open>Undefined\<close> when the variable is not set).
\<close>

definition serverAuthKey :: "request \<Rightarrow> jsval" where
  "serverAuthKey req = js_or (header_x_server_auth req) (body_serverAuthKey req)"

definition middleware :: "jsval \<Rightarrow> request \<Rightarrow> bool" where
  "middleware SERVER_API_KEY req = (serverAuthKey req = SERVER_API_KEY)"

text \<open>The health handler.\<close>

definition health :: "whitelist \<Rightarrow> outcome" where
  "health t = \<lparr>reply = HealthOk, store = t, trace = []\<rparr>"

text \<open>
  The application: the middleware is registered with \<^verbatim>\<open>app.use\<close> before both routes, so
  every request passes through it first.
\<close>

definition app :: "jsval \<Rightarrow> faults \<Rightarrow> request \<Rightarrow> whitelist \<Rightarrow> outcome" where
  "app SERVER_API_KEY f req t =
     (if middleware SERVER_API_KEY req
      then (case route req of
              VerifyKey \<Rightarrow> verify_key f req t
            | HealthCheck \<Rightarrow> health t
            | NoRoute \<Rightarrow> \<lparr>reply = NotRouted, store = t, trace = []\<rparr>)
      else \<lparr>reply = Unauthorized, store = t, trace = []\<rparr>)"

section \<open>Runs of several requests\<close>

text \<open>Requests handled one after the other, each to completion.\<close>

fun run_requests :: "(faults \<times> request) list \<Rightarrow> whitelist \<Rightarrow> whitelist" where
  "run_requests [] t = t"
| "run_requests ((f, req) # rs) t = run_requests rs (store (verify_key f req t))"

text \<open>
  Handlers that overlap. A task is a handler that has not yet read (\<open>Waiting key hwid\<close>),
  one that has read and is about to write (\<open>Writing hwid key\<close>), or one that has
  responded. A schedule names, step by step, the task that runs until its next await.
\<close>

datatype task = Waiting string string | Writing string string | Done response

fun step :: "faults \<Rightarrow> task \<Rightarrow> whitelist \<Rightarrow> task \<times> whitelist" where
  "step f (Waiting k h) t =
     (case fst (verify_read f k h t) of
        Respond r \<Rightarrow> (Done r, t)
      | Bind h' k' \<Rightarrow> (Writing h' k', t))"
| "step f (Writing h k) t = (Done (reply (verify_write f h k t)), store (verify_write f h k t))"
| "step f (Done r) t = (Done r, t)"

fun run_schedule :: "faults \<Rightarrow> nat list \<Rightarrow> task list \<Rightarrow> whitelist \<Rightarrow> task list \<times> whitelist" where
  "run_schedule f [] ts t = (ts, t)"
| "run_schedule f (i # is) ts t =
     (if i < length ts
      then (case step f (ts ! i) t of (tk, t') \<Rightarrow> run_schedule f is (ts[i := tk]) t')
      else run_schedule f is ts t)"

section \<open>Example data\<close>

text \<open>
  A request to \<^verbatim>\<open>/verify_key\<close> with string fields, and a row of the table, for the
  concrete instances below.
\<close>

abbreviation verify_request :: "string \<Rightarrow> string \<Rightarrow> request" where
  "verify_request k h \<equiv>
     \<lparr>route = VerifyKey, header_x_server_auth = Str ''s3cret'', body_serverAuthKey = Undefined,
      body_key = Str k, body_hwid = Str h\<rparr>"

abbreviation whitelist_row :: "string \<Rightarrow> string option \<Rightarrow> string option \<Rightarrow> entry" where
  "whitelist_row k h rb \<equiv> \<lparr>Key = k, HWID = h, redeemedBy = rb\<rparr>"

section \<open>Basic facts about the handler\<close>

lemma truthy_Str: "truthy v \<longleftrightarrow> (\<exists>s. v = Str s \<and> s \<noteq> [])"
  by (cases v) auto

lemma verify_key_strings:
  "body_key req = Str k \<Longrightarrow> body_hwid req = Str h \<Longrightarrow> k \<noteq> [] \<Longrightarrow> h \<noteq> []
   \<Longrightarrow> verify_key f req t = verify_store f k h t"
  by (simp add: verify_key_def)

text \<open>A request either fails the guard or carries two non-empty strings.\<close>

lemma verify_key_cases:
  obtains (missing) "verify_key f req t = \<lparr>reply = MissingInput, store = t, trace = []\<rparr>"
  | (strings) k h where "body_key req = Str k" "body_hwid req = Str h" "k \<noteq> []" "h \<noteq> []"
      "verify_key f req t = verify_store f k h t"
proof (cases "truthy (body_key req) \<and> truthy (body_hwid req)")
  case True
  then obtain k h where "body_key req = Str k" "body_hwid req = Str h" "k \<noteq> []" "h \<noteq> []"
    by (auto simp: truthy_Str)
  then show ?thesis using strings verify_key_strings by blast
next
  case False
  then show ?thesis using missing by (auto simp: verify_key_def)
qed

lemma select_absent: "k \<notin> Key ` set t \<Longrightarrow> select_whitelist k t = []"
  by (auto simp: select_whitelist_def key_matches_def filter_empty_conv)

text \<open>The only change the handler ever makes is the UPDATE of the first-use branch.\<close>

lemma store_verify_store:
  "store (verify_store f k h t) = t
   \<or> (store (verify_store f k h t) = update_whitelist h ''true'' k t
      \<and> decide (select_whitelist k t) k h = Bind h k)"
  by (auto simp: verify_store_def verify_read_def verify_write_def decide_def Let_def
      split: list.splits execute_result.splits)

lemma select_update_other:
  "k' \<noteq> k \<Longrightarrow> select_whitelist k (update_whitelist h rb k' t) = select_whitelist k t"
  by (induction t) (auto simp: select_whitelist_def update_whitelist_def key_matches_def)

lemma select_update_same:
  "select_whitelist k (update_whitelist h rb k t)
   = map (\<lambda>r. r\<lparr>HWID := Some h, redeemedBy := Some rb\<rparr>) (select_whitelist k t)"
  by (induction t) (auto simp: select_whitelist_def update_whitelist_def key_matches_def)

lemma select_after_bind:
  assumes "select_whitelist k t = entry # rest"
  shows "select_whitelist k (update_whitelist h rb k t)
         = entry\<lparr>HWID := Some h, redeemedBy := Some rb\<rparr>
           # map (\<lambda>r. r\<lparr>HWID := Some h, redeemedBy := Some rb\<rparr>) rest"
  using assms by (simp add: select_update_same)


text \<open>
  A key whose rows the handler will not bind (the branch on \<^verbatim>\<open>rows[0]\<close> never reaches the
  UPDATE) keeps its rows through every request, whatever key the request names.
\<close>

lemma rows_kept:
  assumes "\<And>h. decide (select_whitelist k t) k h \<noteq> Bind h k"
  shows "select_whitelist k (store (verify_key f req t)) = select_whitelist k t"
proof (cases rule: verify_key_cases [of f req t])
  case missing
  then show ?thesis by simp
next
  case (strings k' h)
  show ?thesis
  proof (cases "k' = k")
    case True
    with assms store_verify_store [of f k h t] strings show ?thesis by auto
  next
    case False
    with store_verify_store [of f k' h t] strings show ?thesis
      by (auto simp: select_update_other)
  qed
qed

lemma rows_kept_run:
  assumes "\<And>h. decide (select_whitelist k t) k h \<noteq> Bind h k"
  shows "select_whitelist k (run_requests rs t) = select_whitelist k t"
  using assms
proof (induction rs arbitrary: t)
  case Nil
  then show ?case by simp
next
  case (Cons x rs)
  obtain f req where x: "x = (f, req)" by (cases x)
  have keep: "select_whitelist k (store (verify_key f req t)) = select_whitelist k t"
    using Cons.prems by (rule rows_kept)
  then have "select_whitelist k (run_requests rs (store (verify_key f req t)))
             = select_whitelist k (store (verify_key f req t))"
    using Cons.prems by (intro Cons.IH) simp
  with keep x show ?case by simp
qed

text \<open>The three states of \<^verbatim>\<open>rows[0]\<close> that the branches tell apart.\<close>

lemma decide_bound:
  assumes "select_whitelist k t = entry # rest" "HWID entry = Some b" "b \<noteq> []" "b \<noteq> ''null''"
  shows "decide (select_whitelist k t) k h
         = Respond (if h = b then AuthorizedMatch else HwidMismatch)"
  using assms by (auto simp: decide_def)

lemma decide_unbound:
  assumes "select_whitelist k t = entry # rest"
    and "HWID entry = None \<or> HWID entry = Some ''null'' \<or> HWID entry = Some ''''"
    and "redeemedBy entry = None \<or> redeemedBy entry = Some ''null''
         \<or> redeemedBy entry = Some ''''"
  shows "decide (select_whitelist k t) k h = Bind h k"
  using assms by (auto simp: decide_def)

lemma marked_null_is_stuck:
  assumes "select_whitelist k t = entry # rest"
    and "HWID entry = Some ''null''" "redeemedBy entry = Some ''true''"
  shows "decide (select_whitelist k t) k h = Respond AlreadyRedeemedByOther"
  using assms by (simp add: decide_def)

lemma verify_store_bound:
  assumes "select_whitelist k t = entry # rest" "HWID entry = Some b" "b \<noteq> []" "b \<noteq> ''null''"
  shows "store (verify_store f k h t) = t
       \<and> reply (verify_store f k h t)
           = (if getConnection_fails f \<or> select_fails f then StoreError
              else if h = b then AuthorizedMatch else HwidMismatch)"
  using decide_bound [OF assms, of h]
  by (simp add: verify_store_def verify_read_def)

lemma verify_store_unbound:
  assumes "select_whitelist k t = entry # rest"
    and "HWID entry = None \<or> HWID entry = Some ''null'' \<or> HWID entry = Some ''''"
    and "redeemedBy entry = None \<or> redeemedBy entry = Some ''null''
         \<or> redeemedBy entry = Some ''''"
    and "\<not> getConnection_fails f" "\<not> select_fails f" "update_result f = Resolves"
  shows "verify_store f k h t
         = \<lparr>reply = RedeemedNow, store = update_whitelist h ''true'' k t,
            trace = [GetConnection, Select k, Update h k, Release]\<rparr>"
  using decide_unbound [OF assms(1-3), of h] assms(4-6)
  by (simp add: verify_store_def verify_read_def verify_write_def release_def)

lemma run_same_key_bound:
  assumes "select_whitelist k t = entry # rest" "HWID entry = Some b" "b \<noteq> []" "b \<noteq> ''null''"
    and "\<forall>x \<in> set rs. body_key (snd x) = Str k"
  shows "run_requests rs t = t"
  using assms(5)
proof (induction rs)
  case Nil
  then show ?case by simp
next
  case (Cons x rs)
  obtain f req where x: "x = (f, req)" by (cases x)
  have "store (verify_key f req t) = t"
  proof (cases rule: verify_key_cases [of f req t])
    case missing
    then show ?thesis by simp
  next
    case (strings k' h)
    with Cons.prems x have "k' = k" by simp
    with strings verify_store_bound [OF assms(1-4), of f h] show ?thesis by simp
  qed
  with Cons x show ?case by simp
qed





text \<open>
  The write looks at no column but \<^verbatim>\<open>Key\<close>: whatever the rows of the key hold when it
  runs, they hold the new HWID afterwards.
\<close>

lemma verify_write_unconditional:
  "update_result f \<noteq> RejectsBefore
   \<Longrightarrow> select_whitelist k (store (verify_write f h k t))
       = map (\<lambda>r. r\<lparr>HWID := Some h, redeemedBy := Some ''true''\<rparr>) (select_whitelist k t)"
  by (cases "update_result f") (simp_all add: verify_write_def select_update_same)

text \<open>
  The two parts of the handler, scheduled with nothing in between, are the handler run
  without interruption.
\<close>

lemma alone_is_verify_store:
  "run_schedule f [0, 0] [Waiting k h] t
   = ([Done (reply (verify_store f k h t))], store (verify_store f k h t))"
  by (auto simp: verify_store_def Let_def split: pending.splits prod.splits)

text \<open>A credential that differs from the configured secret stops at the middleware.\<close>

lemma middleware_rejects:
  "serverAuthKey req \<noteq> secret
   \<Longrightarrow> app secret f req t = \<lparr>reply = Unauthorized, store = t, trace = []\<rparr>"
  by (simp add: app_def middleware_def)

text \<open>
  A row that carries a marker but no HWID (in the reading of the branches) is refused,
  whatever hwid is presented.
\<close>

lemma decide_marked:
  assumes "select_whitelist k t = entry # rest"
    and "HWID entry = None \<or> HWID entry = Some ''null'' \<or> HWID entry = Some ''''"
    and "redeemedBy entry \<noteq> None" "redeemedBy entry \<noteq> Some ''null''"
      "redeemedBy entry \<noteq> Some ''''"
  shows "decide (select_whitelist k t) k h = Respond AlreadyRedeemedByOther"
  using assms by (auto simp: decide_def)

text \<open>
  When the UPDATE takes effect and its promise rejects all the same, the \<^verbatim>\<open>catch\<close> block
  answers with the server error and the row stays as the UPDATE left it.
\<close>

lemma verify_store_lost_reply:
  assumes "select_whitelist k t = entry # rest"
    and "HWID entry = None \<or> HWID entry = Some ''null'' \<or> HWID entry = Some ''''"
    and "redeemedBy entry = None \<or> redeemedBy entry = Some ''null''
         \<or> redeemedBy entry = Some ''''"
    and "\<not> getConnection_fails f" "\<not> select_fails f" "update_result f = RejectsAfter"
  shows "verify_store f k h t
         = \<lparr>reply = StoreError, store = update_whitelist h ''true'' k t,
            trace = [GetConnection, Select k, Update h k, Release]\<rparr>"
  using decide_unbound [OF assms(1-3), of h] assms(4-6)
  by (simp add: verify_store_def verify_read_def verify_write_def release_def)

section \<open>Requests handled one after the other\<close>

text \<open>
  What the handler guarantees when no two handlers overlap. A key whose first row holds a
  non-empty HWID keeps all its rows through every sequence of requests, provided the
  branches do not read the row as open for first use: the HWID is not the string
  \<^verbatim>\<open>null\<close>, or the row carries a marker.
\<close>

lemma binding_immutable_sequential:
  assumes "select_whitelist k t = entry # rest" "HWID entry = Some b" "b \<noteq> []"
    and "b \<noteq> ''null''
         \<or> (redeemedBy entry \<noteq> None \<and> redeemedBy entry \<noteq> Some ''null''
            \<and> redeemedBy entry \<noteq> Some '''')"
  shows "select_whitelist k (run_requests rs t) = select_whitelist k t"
proof (rule rows_kept_run)
  fix h
  show "decide (select_whitelist k t) k h \<noteq> Bind h k"
  proof (cases "b = ''null''")
    case True
    with assms show ?thesis
      using decide_marked [of k t entry rest h] by simp
  next
    case False
    with assms(1-3) show ?thesis
      using decide_bound [of k t entry rest b h] by simp
  qed
qed

text \<open>
  First use followed by re-verification, for an hwid other than the string \<^verbatim>\<open>null\<close> and
  a store that answers.
\<close>

lemma redeem_then_match_sequential:
  assumes "select_whitelist k t = entry # rest"
    and "HWID entry = None \<or> HWID entry = Some ''null'' \<or> HWID entry = Some ''''"
    and "redeemedBy entry = None \<or> redeemedBy entry = Some ''null''
         \<or> redeemedBy entry = Some ''''"
    and "body_key req = Str k" "k \<noteq> []" "body_hwid req = Str h" "h \<noteq> []" "h \<noteq> ''null''"
    and "\<not> getConnection_fails f1" "\<not> select_fails f1" "update_result f1 = Resolves"
    and "\<not> getConnection_fails f2" "\<not> select_fails f2"
  shows "reply (verify_key f1 req t) = RedeemedNow
       \<and> reply (verify_key f2 req (store (verify_key f1 req t))) = AuthorizedMatch
       \<and> store (verify_key f2 req (store (verify_key f1 req t)))
           = update_whitelist h ''true'' k t"
proof -
  let ?t1 = "update_whitelist h ''true'' k t"
  have vk: "verify_key f req u = verify_store f k h u" for f u
    using assms(4-7) by (simp add: verify_key_strings)
  have first: "verify_store f1 k h t
      = \<lparr>reply = RedeemedNow, store = ?t1,
         trace = [GetConnection, Select k, Update h k, Release]\<rparr>"
    using assms(1-3) assms(9-11) by (rule verify_store_unbound)
  have sel: "select_whitelist k ?t1
      = entry\<lparr>HWID := Some h, redeemedBy := Some ''true''\<rparr>
        # map (\<lambda>r. r\<lparr>HWID := Some h, redeemedBy := Some ''true''\<rparr>) rest"
    using assms(1) by (rule select_after_bind)
  have second: "store (verify_store f2 k h ?t1) = ?t1
      \<and> reply (verify_store f2 k h ?t1)
          = (if getConnection_fails f2 \<or> select_fails f2 then StoreError
             else if h = h then AuthorizedMatch else HwidMismatch)"
    by (rule verify_store_bound [OF sel _ assms(7) assms(8)]) simp
  show ?thesis
    using first second assms(12,13) by (simp add: vk)
qed

text \<open>
  Re-verification of a key bound to an HWID other than the string \<^verbatim>\<open>null\<close>: match or
  mismatch, and no change of the table.
\<close>

lemma reverification_sequential:
  assumes "select_whitelist k t = entry # rest" "HWID entry = Some b" "b \<noteq> []" "b \<noteq> ''null''"
    and "body_key req = Str k" "k \<noteq> []" "body_hwid req = Str h" "h \<noteq> []"
  shows "store (verify_key f req t) = t
       \<and> reply (verify_key f req t)
           = (if getConnection_fails f \<or> select_fails f then StoreError
              else if h = b then AuthorizedMatch else HwidMismatch)"
  using verify_store_bound [OF assms(1-4), of f h]
    verify_key_strings [OF assms(5) assms(7) assms(6) assms(8), of f t]
  by simp

text \<open>
  The health handler behind the middleware: it attempts no store operation, and answers
  \<^verbatim>\<open>ok\<close> to the requests that the middleware lets through.
\<close>

lemma health_behind_middleware:
  assumes "route req = HealthCheck"
  shows "app secret f req t
         = \<lparr>reply = (if middleware secret req then HealthOk else Unauthorized),
            store = t, trace = []\<rparr>"
  using assms by (simp add: app_def health_def)

section \<open>Missing input\<close>

text \<open>
  C9. When \<^verbatim>\<open>key\<close> or \<^verbatim>\<open>hwid\<close> is empty or missing, the handler answers at once with
  the MissingInput response, whose status is the client error 400, attempts no store
  operation and leaves the table as it is; this holds whatever the store would have done.
  The same is true of the whole application for such a request: no store operation is
  attempted and the table is unchanged.
\<close>

theorem missing_input_no_store_access:
  assumes "\<not> truthy (body_key req) \<or> \<not> truthy (body_hwid req)"
  shows "verify_key f req t = \<lparr>reply = MissingInput, store = t, trace = []\<rparr>
         \<and> code MissingInput = 400
         \<and> trace (app secret f req t) = [] \<and> store (app secret f req t) = t"
  using assms
  by (auto simp: verify_key_def MissingInput_def app_def health_def split: route.splits)

theorem missing_input_no_store_access_witness:
  "verify_key no_faults (verify_request ''KEY-1'' []) [whitelist_row ''KEY-1'' None None]
   = \<lparr>reply = MissingInput, store = [whitelist_row ''KEY-1'' None None], trace = []\<rparr>"
  using missing_input_no_store_access
    [where req = "verify_request ''KEY-1'' []" and f = no_faults
       and t = "[whitelist_row ''KEY-1'' None None]"]
  by simp

section \<open>Keys that are not in the table\<close>

text \<open>
  C8. For a key that no row of the table carries, and a non-empty hwid, the handler never
  changes the table and attempts no UPDATE. Its answer is InvalidKey, sent with status
  200 as an ordinary negative result and different from the server-error response; only
  when the connection or the SELECT itself fails is the answer the server error.
\<close>

theorem absent_key_invalid:
  assumes "body_key req = Str k" "body_hwid req = Str h" "k \<noteq> []" "h \<noteq> []"
    and "k \<notin> Key ` set t"
  shows "store (verify_key f req t) = t
       \<and> trace (verify_key f req t)
           = (if getConnection_fails f then [GetConnection]
              else [GetConnection, Select k, Release])
       \<and> reply (verify_key f req t)
           = (if getConnection_fails f \<or> select_fails f then StoreError else InvalidKey)
       \<and> code InvalidKey = 200 \<and> InvalidKey \<noteq> StoreError"
  using assms
  by (simp add: verify_key_strings verify_store_def verify_read_def select_absent decide_def
      release_def InvalidKey_def StoreError_def)

theorem absent_key_invalid_witness:
  "reply (verify_key no_faults (verify_request ''KEY-2'' ''H1'')
            [whitelist_row ''KEY-1'' None None]) = InvalidKey
   \<and> store (verify_key no_faults (verify_request ''KEY-2'' ''H1'')
            [whitelist_row ''KEY-1'' None None]) = [whitelist_row ''KEY-1'' None None]"
  using absent_key_invalid
    [where req = "verify_request ''KEY-2'' ''H1''" and k = "''KEY-2''" and h = "''H1''"
       and t = "[whitelist_row ''KEY-1'' None None]" and f = no_faults]
  by (simp add: no_faults_def)

section \<open>The string \<^verbatim>\<open>null\<close> as an hwid\<close>

text \<open>
  C5. For the non-empty hwid \<^verbatim>\<open>null\<close> the sequence redeem, then verify again, does not
  end in AuthorizedMatch. On an unbound key without marker the first verify answers
  RedeemedNow; the second verify of the same key with the same hwid is answered
  AlreadyRedeemedByOther.
\<close>

theorem null_hwid_redeemed_then_refused:
  "reply (verify_key no_faults (verify_request ''KEY-1'' ''null'')
            [whitelist_row ''KEY-1'' None None]) = RedeemedNow
   \<and> reply (verify_key no_faults (verify_request ''KEY-1'' ''null'')
        (store (verify_key no_faults (verify_request ''KEY-1'' ''null'')
            [whitelist_row ''KEY-1'' None None]))) = AlreadyRedeemedByOther
   \<and> AlreadyRedeemedByOther \<noteq> AuthorizedMatch"
  by (simp add: verify_key_def verify_store_def verify_read_def verify_write_def decide_def
      select_whitelist_def update_whitelist_def key_matches_def release_def no_faults_def
      AlreadyRedeemedByOther_def AuthorizedMatch_def)

theorem null_hwid_redeemed_then_refused_witness:
  "body (reply (verify_key no_faults (verify_request ''KEY-1'' ''null'')
        (store (verify_key no_faults (verify_request ''KEY-1'' ''null'')
            [whitelist_row ''KEY-1'' None None]))))
   = Result False ''This key has already been redeemed by another user.''"
  using null_hwid_redeemed_then_refused by (simp add: AlreadyRedeemedByOther_def)

text \<open>
  C6. A key whose row holds the HWID \<^verbatim>\<open>null\<close> and the marker \<^verbatim>\<open>true\<close>, as the handler
  itself writes them for a client that presents \<^verbatim>\<open>null\<close>, is not re-verified: verify
  with the very HWID on record is answered AlreadyRedeemedByOther instead of
  AuthorizedMatch. The table is left as it is.
\<close>

theorem null_binding_not_reverified:
  "store (verify_key no_faults (verify_request ''KEY-1'' ''null'')
            [whitelist_row ''KEY-1'' None None])
   = [whitelist_row ''KEY-1'' (Some ''null'') (Some ''true'')]
   \<and> verify_key no_faults (verify_request ''KEY-1'' ''null'')
            [whitelist_row ''KEY-1'' (Some ''null'') (Some ''true'')]
      = \<lparr>reply = AlreadyRedeemedByOther,
         store = [whitelist_row ''KEY-1'' (Some ''null'') (Some ''true'')],
         trace = [GetConnection, Select ''KEY-1'', Release]\<rparr>
   \<and> AlreadyRedeemedByOther \<noteq> AuthorizedMatch"
  by (simp add: verify_key_def verify_store_def verify_read_def verify_write_def decide_def
      select_whitelist_def update_whitelist_def key_matches_def release_def no_faults_def
      AlreadyRedeemedByOther_def AuthorizedMatch_def)

theorem null_binding_not_reverified_witness:
  "code (reply (verify_key no_faults (verify_request ''KEY-1'' ''null'')
            [whitelist_row ''KEY-1'' (Some ''null'') (Some ''true'')])) = 200
   \<and> body (reply (verify_key no_faults (verify_request ''KEY-1'' ''null'')
            [whitelist_row ''KEY-1'' (Some ''null'') (Some ''true'')]))
      = Result False ''This key has already been redeemed by another user.''"
  using null_binding_not_reverified by (simp add: AlreadyRedeemedByOther_def)

text \<open>
  C7. The string \<^verbatim>\<open>null\<close> is read as "no HWID". A client that presents the hwid
  \<^verbatim>\<open>null\<close> for an unbound key without marker is answered RedeemedNow, and the rows of the
  key then hold HWID = \<^verbatim>\<open>null\<close>. After that, and after any further requests handled in
  between, verify(key, \<^verbatim>\<open>null\<close>) is answered AlreadyRedeemedByOther (whenever the store
  read succeeds), which is not AuthorizedMatch.
\<close>

theorem null_hwid_collision:
  assumes "select_whitelist k t = entry # rest"
    and "HWID entry = None \<or> HWID entry = Some ''null'' \<or> HWID entry = Some ''''"
    and "redeemedBy entry = None \<or> redeemedBy entry = Some ''null''
         \<or> redeemedBy entry = Some ''''"
    and "body_key req = Str k" "k \<noteq> []" "body_hwid req = Str ''null''"
    and "\<not> getConnection_fails f1" "\<not> select_fails f1" "update_result f1 = Resolves"
    and "\<not> getConnection_fails f2" "\<not> select_fails f2"
  shows "reply (verify_key f1 req t) = RedeemedNow
       \<and> (\<forall>r \<in> set (select_whitelist k (store (verify_key f1 req t))). HWID r = Some ''null'')
       \<and> select_whitelist k (store (verify_key f1 req t)) \<noteq> []
       \<and> reply (verify_key f2 req (run_requests rs (store (verify_key f1 req t))))
           = AlreadyRedeemedByOther
       \<and> AlreadyRedeemedByOther \<noteq> AuthorizedMatch"
proof -
  let ?t1 = "update_whitelist ''null'' ''true'' k t"
  let ?e1 = "entry\<lparr>HWID := Some ''null'', redeemedBy := Some ''true''\<rparr>"
  let ?rest1 = "map (\<lambda>r. r\<lparr>HWID := Some ''null'', redeemedBy := Some ''true''\<rparr>) rest"
  have vk: "verify_key f req u = verify_store f k ''null'' u" for f u
    using assms(4-6) by (simp add: verify_key_strings)
  have first: "verify_store f1 k ''null'' t
      = \<lparr>reply = RedeemedNow, store = ?t1,
         trace = [GetConnection, Select k, Update ''null'' k, Release]\<rparr>"
    using assms(1-3) assms(7-9) by (rule verify_store_unbound)
  have sel: "select_whitelist k ?t1 = ?e1 # ?rest1"
    using assms(1) by (rule select_after_bind)
  have stuck: "decide (select_whitelist k ?t1) k h = Respond AlreadyRedeemedByOther" for h
    using sel by (intro marked_null_is_stuck [where entry = ?e1]) simp_all
  have kept: "select_whitelist k (run_requests rs ?t1) = select_whitelist k ?t1"
    by (rule rows_kept_run) (simp add: stuck)
  have later: "reply (verify_store f2 k ''null'' (run_requests rs ?t1)) = AlreadyRedeemedByOther"
    using stuck [of "''null''"] assms(10,11)
    by (simp add: verify_store_def verify_read_def kept)
  have rows: "\<forall>r \<in> set (select_whitelist k ?t1). HWID r = Some ''null''"
    unfolding sel by auto
  have differ: "AlreadyRedeemedByOther \<noteq> AuthorizedMatch"
    by (simp add: AlreadyRedeemedByOther_def AuthorizedMatch_def)
  show ?thesis
    using first later rows sel differ by (simp add: vk)
qed

theorem null_hwid_collision_witness:
  "reply (verify_key no_faults (verify_request ''KEY-1'' ''null'')
            [whitelist_row ''KEY-1'' None None]) = RedeemedNow
   \<and> reply (verify_key no_faults (verify_request ''KEY-1'' ''null'')
        (run_requests [(no_faults, verify_request ''KEY-1'' ''H2'')]
          (store (verify_key no_faults (verify_request ''KEY-1'' ''null'')
            [whitelist_row ''KEY-1'' None None])))) = AlreadyRedeemedByOther"
  using null_hwid_collision
    [where k = "''KEY-1''" and t = "[whitelist_row ''KEY-1'' None None]"
       and entry = "whitelist_row ''KEY-1'' None None" and rest = "[]"
       and req = "verify_request ''KEY-1'' ''null''"
       and ?f1.0 = no_faults and ?f2.0 = no_faults
       and rs = "[(no_faults, verify_request ''KEY-1'' ''H2'')]"]
  by (simp add: select_whitelist_def key_matches_def no_faults_def)

section \<open>The first-use race\<close>

text \<open>
  C1. The UPDATE carries no condition on the HWID column. Two handlers for the same
  unbound key that both read before either writes both answer RedeemedNow: after the
  first write the row is bound to \<^verbatim>\<open>H1\<close>, and the second write replaces that binding
  by \<^verbatim>\<open>H2\<close>.
\<close>

theorem blind_update_overwrites:
  "run_schedule no_faults [0, 1, 0] [Waiting ''KEY-1'' ''H1'', Waiting ''KEY-1'' ''H2'']
     [whitelist_row ''KEY-1'' None None]
   = ([Done RedeemedNow, Writing ''H2'' ''KEY-1''],
      [whitelist_row ''KEY-1'' (Some ''H1'') (Some ''true'')])
   \<and> run_schedule no_faults [0, 1, 0, 1] [Waiting ''KEY-1'' ''H1'', Waiting ''KEY-1'' ''H2'']
     [whitelist_row ''KEY-1'' None None]
   = ([Done RedeemedNow, Done RedeemedNow],
      [whitelist_row ''KEY-1'' (Some ''H2'') (Some ''true'')])"
  by (simp add: verify_read_def verify_write_def decide_def select_whitelist_def
      update_whitelist_def key_matches_def no_faults_def)

theorem blind_update_overwrites_witness:
  "map HWID (snd (run_schedule no_faults [0, 1, 0, 1]
      [Waiting ''KEY-1'' ''H1'', Waiting ''KEY-1'' ''H2''] [whitelist_row ''KEY-1'' None None]))
   = [Some ''H2'']"
  using blind_update_overwrites by simp

section \<open>Handlers that overlap\<close>

text \<open>
  C4. A binding is replaced when two handlers for the same key overlap. The handler for
  \<^verbatim>\<open>H2\<close> reads the unbound row, then the handler for \<^verbatim>\<open>H1\<close> reads and writes: the row
  is now bound to the non-empty HWID \<^verbatim>\<open>H1\<close>. The write of the handler for \<^verbatim>\<open>H2\<close>,
  still pending, then changes that bound HWID to \<^verbatim>\<open>H2\<close>.
\<close>

theorem late_write_replaces_binding:
  "run_schedule no_faults [1, 0, 0] [Waiting ''KEY-1'' ''H1'', Waiting ''KEY-1'' ''H2'']
     [whitelist_row ''KEY-1'' None None]
   = ([Done RedeemedNow, Writing ''H2'' ''KEY-1''],
      [whitelist_row ''KEY-1'' (Some ''H1'') (Some ''true'')])
   \<and> step no_faults (Writing ''H2'' ''KEY-1'')
        [whitelist_row ''KEY-1'' (Some ''H1'') (Some ''true'')]
   = (Done RedeemedNow, [whitelist_row ''KEY-1'' (Some ''H2'') (Some ''true'')])"
  by (simp add: verify_read_def verify_write_def decide_def select_whitelist_def
      update_whitelist_def key_matches_def no_faults_def)

theorem late_write_replaces_binding_witness:
  "map HWID (snd (step no_faults (Writing ''H2'' ''KEY-1'')
      (snd (run_schedule no_faults [1, 0, 0]
         [Waiting ''KEY-1'' ''H1'', Waiting ''KEY-1'' ''H2'']
         [whitelist_row ''KEY-1'' None None]))))
   = [Some ''H2'']"
  using late_write_replaces_binding by simp

section \<open>The UPDATE and the failures of the store\<close>




section \<open>The middleware\<close>

text \<open>
  C2. The middleware compares the presented credential with the configured secret and
  nothing else. When \<^verbatim>\<open>SERVER_API_KEY\<close> is not set, a request that carries no credential
  passes, reaches the store and redeems a key; when it is set to the empty string, a
  request whose body carries the empty string as \<^verbatim>\<open>serverAuthKey\<close> passes as well.
\<close>

theorem unset_secret_admits_request_without_credential:
  "app Undefined no_faults
     \<lparr>route = VerifyKey, header_x_server_auth = Undefined, body_serverAuthKey = Undefined,
      body_key = Str ''KEY-1'', body_hwid = Str ''H1''\<rparr>
     [whitelist_row ''KEY-1'' None None]
   = \<lparr>reply = RedeemedNow, store = [whitelist_row ''KEY-1'' (Some ''H1'') (Some ''true'')],
      trace = [GetConnection, Select ''KEY-1'', Update ''H1'' ''KEY-1'', Release]\<rparr>
   \<and> app (Str []) no_faults
     \<lparr>route = VerifyKey, header_x_server_auth = Undefined, body_serverAuthKey = Str [],
      body_key = Str ''KEY-1'', body_hwid = Str ''H1''\<rparr>
     [whitelist_row ''KEY-1'' None None]
   = \<lparr>reply = RedeemedNow, store = [whitelist_row ''KEY-1'' (Some ''H1'') (Some ''true'')],
      trace = [GetConnection, Select ''KEY-1'', Update ''H1'' ''KEY-1'', Release]\<rparr>"
  by (simp add: app_def middleware_def serverAuthKey_def js_or_def verify_key_def
      verify_store_def verify_read_def verify_write_def decide_def select_whitelist_def
      update_whitelist_def key_matches_def release_def no_faults_def)

theorem unset_secret_admits_request_without_credential_witness:
  "trace (app Undefined no_faults
     \<lparr>route = VerifyKey, header_x_server_auth = Undefined, body_serverAuthKey = Undefined,
      body_key = Str ''KEY-1'', body_hwid = Str ''H1''\<rparr>
     [whitelist_row ''KEY-1'' None None]) \<noteq> []"
  using unset_secret_admits_request_without_credential by simp

text \<open>
  C3. The health route lies behind the middleware. With a secret configured, a request
  to \<^verbatim>\<open>/health\<close> that carries no credential, as a probe that opens the bare URL sends it,
  is answered Unauthorized with status 401 and not with the \<^verbatim>\<open>ok\<close> status; no store
  operation is attempted.
\<close>

theorem health_probe_unauthorized:
  "app (Str ''s3cret'') no_faults
     \<lparr>route = HealthCheck, header_x_server_auth = Undefined, body_serverAuthKey = Undefined,
      body_key = Undefined, body_hwid = Undefined\<rparr> []
   = \<lparr>reply = Unauthorized, store = [], trace = []\<rparr>
   \<and> Unauthorized \<noteq> HealthOk \<and> code Unauthorized = 401"
  by (simp add: app_def middleware_def serverAuthKey_def js_or_def Unauthorized_def HealthOk_def)

theorem health_probe_unauthorized_witness:
  "body (reply (app (Str ''s3cret'') no_faults
     \<lparr>route = HealthCheck, header_x_server_auth = Undefined, body_serverAuthKey = Undefined,
      body_key = Undefined, body_hwid = Undefined\<rparr> []))
   = Result False ''Unauthorized: Invalid server key.''"
  using health_probe_unauthorized by (simp add: Unauthorized_def)

end
